theory Spec2Isabelle
  imports Main
begin

section \<open>Python values, errors and strings\<close>

text \<open>
  Values that travel through webhook headers, JSON bodies, API payloads and YAML
  configuration: \<open>None\<close>, booleans, integers, strings, lists and dictionaries.
  A dictionary is an association list in insertion order; floats are not modelled.
  A \<open>char\<close> stands for one code point below 256.
\<close>

datatype pyval = PNone | PBool bool | PInt int | PStr string
  | PList "pyval list" | PDict "(string \<times> pyval) list"

type_synonym dict = "(string \<times> pyval) list"

text \<open>Every exception the modelled code can raise is a value.\<close>

datatype error =
    AttributeError string
  | KeyError string
  | TypeError
  | ValueError
  | ConfigError string
  | FileNotFoundError
  | GithubException string
  | IncompletableObject

text \<open>
  Python's \<open>==\<close> on these values: \<open>True == 1\<close> and \<open>False == 0\<close> hold, lists compare
  element by element, dictionaries compare as mappings whatever their order.
\<close>

fun py_eq :: "pyval \<Rightarrow> pyval \<Rightarrow> bool"
and py_eq_list :: "pyval list \<Rightarrow> pyval list \<Rightarrow> bool"
and py_eq_items :: "dict \<Rightarrow> dict \<Rightarrow> bool" where
  "py_eq PNone y = (y = PNone)"
| "py_eq (PBool a) y =
     (case y of PBool b \<Rightarrow> a = b | PInt j \<Rightarrow> (if a then 1 else 0) = j | _ \<Rightarrow> False)"
| "py_eq (PInt i) y =
     (case y of PBool b \<Rightarrow> i = (if b then 1 else 0) | PInt j \<Rightarrow> i = j | _ \<Rightarrow> False)"
| "py_eq (PStr s) y = (y = PStr s)"
| "py_eq (PList xs) y = (case y of PList ys \<Rightarrow> py_eq_list xs ys | _ \<Rightarrow> False)"
| "py_eq (PDict xs) y =
     (case y of PDict ys \<Rightarrow> length xs = length ys \<and> py_eq_items xs ys | _ \<Rightarrow> False)"
| "py_eq_list [] ys = (ys = [])"
| "py_eq_list (x # xs) ys =
     (case ys of [] \<Rightarrow> False | y # ys' \<Rightarrow> py_eq x y \<and> py_eq_list xs ys')"
| "py_eq_items [] ys = True"
| "py_eq_items (kv # xs) ys =
     (case map_of ys (fst kv) of
        None \<Rightarrow> False
      | Some w \<Rightarrow> py_eq (snd kv) w \<and> py_eq_items xs ys)"

text \<open>Truthiness, as \<open>if x:\<close> tests it.\<close>

fun truthy :: "pyval \<Rightarrow> bool" where
  "truthy PNone = False"
| "truthy (PBool b) = b"
| "truthy (PInt i) = (i \<noteq> 0)"
| "truthy (PStr s) = (s \<noteq> [])"
| "truthy (PList xs) = (xs \<noteq> [])"
| "truthy (PDict xs) = (xs \<noteq> [])"

subsection \<open>String methods\<close>

text \<open>\<open>str.lower\<close> on code points below 256: A-Z and the accented capitals move by 32.\<close>

definition lower_char :: "char \<Rightarrow> char" where
  "lower_char c =
     (let n = of_char c :: nat
      in if (65 \<le> n \<and> n \<le> 90) \<or> (192 \<le> n \<and> n \<le> 222 \<and> n \<noteq> 215)
         then char_of (n + 32) else c)"

definition lower :: "string \<Rightarrow> string" where
  "lower s = map lower_char s"

definition startswith :: "string \<Rightarrow> string \<Rightarrow> bool" where
  "startswith s p = (take (length p) s = p)"

text \<open>
  \<open>str.replace(old, new)\<close>: every occurrence of \<open>old\<close>, scanning from the left without
  overlap. With an empty \<open>old\<close> Python puts \<open>new\<close> before every character and at the end.
\<close>

function replace :: "string \<Rightarrow> string \<Rightarrow> string \<Rightarrow> string" where
  "replace [] old new = (if old = [] then new else [])"
| "replace (c # cs) old new =
     (if old = [] then new @ c # replace cs old new
      else if startswith (c # cs) old
           then new @ replace (drop (length old) (c # cs)) old new
      else c # replace cs old new)"
  by pat_completeness auto
termination
  by (relation "measure (\<lambda>(s, old, new). length s)") auto

text \<open>\<open>re.sub(r"[- ]", "_", s)\<close>: every hyphen and every space becomes an underscore.\<close>

definition sub_hyphen_space :: "string \<Rightarrow> string" where
  "sub_hyphen_space s = map (\<lambda>c. if c = CHR ''-'' \<or> c = CHR '' '' then CHR ''_'' else c) s"

subsection \<open>Dictionaries\<close>

text \<open>\<open>d[k] = v\<close>: an existing key keeps its place and takes the new value, a new key goes last.\<close>

fun dict_set :: "string \<Rightarrow> pyval \<Rightarrow> dict \<Rightarrow> dict" where
  "dict_set k v [] = [(k, v)]"
| "dict_set k v (p # ps) = (if fst p = k then (k, v) # ps else p # dict_set k v ps)"

text \<open>\<open>d[k]\<close> raises \<open>KeyError\<close> on a missing key.\<close>

definition dict_item :: "dict \<Rightarrow> string \<Rightarrow> error + pyval" where
  "dict_item d k = (case map_of d k of None \<Rightarrow> Inl (KeyError k) | Some v \<Rightarrow> Inr v)"

section \<open>Event classification (githubapp/events/event.py)\<close>

subsection \<open>Event.normalize_dicts\<close>

text \<open>The three rewrites applied to every key, in the order of lines 61 to 63.\<close>

definition normalize_attr :: "string \<Rightarrow> string" where
  "normalize_attr attr = sub_hyphen_space (replace (lower attr) ''x-github-'' [])"

text \<open>The inner loop over \<open>d.items()\<close> and the outer loop over \<open>dicts\<close>.\<close>

fun normalize_items :: "dict \<Rightarrow> dict \<Rightarrow> dict" where
  "normalize_items union_dict [] = union_dict"
| "normalize_items union_dict (item # rest) =
     normalize_items (dict_set (normalize_attr (fst item)) (snd item) union_dict) rest"

fun normalize_loop :: "dict \<Rightarrow> dict list \<Rightarrow> dict" where
  "normalize_loop union_dict [] = union_dict"
| "normalize_loop union_dict (d # dicts) = normalize_loop (normalize_items union_dict d) dicts"

definition normalize_dicts :: "dict list \<Rightarrow> dict" where
  "normalize_dicts dicts = normalize_loop [] dicts"

subsection \<open>Event.match and Event.get_event\<close>

text \<open>
  An event class: its name, the \<open>event_identifier\<close> it resolves (\<open>None\<close> on the root and
  on any subclass that does not define one) and \<open>__subclasses__()\<close>, the direct subclasses
  in definition order.
\<close>

datatype event_class =
  EventClass (cname: string) (event_identifier: "dict option") (subclasses: "event_class list")

text \<open>
  \<open>match\<close> iterates \<open>cls.event_identifier.items()\<close>; on a class whose identifier is
  \<open>None\<close> that raises \<open>AttributeError\<close>.
\<close>

definition match :: "event_class \<Rightarrow> dict \<Rightarrow> error + bool" where
  "match cls data =
     (case event_identifier cls of
        None \<Rightarrow> Inl (AttributeError ''items'')
      | Some ident \<Rightarrow>
          Inr (list_all (\<lambda>(attr, value).
                 (case map_of data attr of None \<Rightarrow> False | Some v \<Rightarrow> py_eq value v)) ident))"

text \<open>
  \<open>get_event\<close> normalizes once, then walks the subclasses in order; the first one that
  matches answers with its own \<open>get_event\<close>. An exception of \<open>match\<close> leaves the loop.
\<close>

fun get_event :: "event_class \<Rightarrow> dict \<Rightarrow> dict \<Rightarrow> error + event_class"
and get_event_loop ::
  "event_class \<Rightarrow> event_class list \<Rightarrow> dict \<Rightarrow> dict \<Rightarrow> dict \<Rightarrow> error + event_class" where
  "get_event (EventClass n i subs) headers body =
     get_event_loop (EventClass n i subs) subs (normalize_dicts [headers, body]) headers body"
| "get_event_loop event_class [] union_dict headers body = Inr event_class"
| "get_event_loop event_class (event # rest) union_dict headers body =
     (case match event union_dict of
        Inl e \<Rightarrow> Inl e
      | Inr True \<Rightarrow> get_event event headers body
      | Inr False \<Rightarrow> get_event_loop event_class rest union_dict headers body)"


subsection \<open>The traversal the specification describes\<close>

text \<open>
  The specification's \<open>match\<close>: a descriptor applies to a normalized request when every
  key of its required fields exists in the request with an equal value.
\<close>

definition matches :: "dict \<Rightarrow> event_class \<Rightarrow> bool" where
  "matches request e =
     (case event_identifier e of
        None \<Rightarrow> False
      | Some required_fields \<Rightarrow>
          (\<forall>(key, expected) \<in> set required_fields.
             key \<in> fst ` set request \<and> py_eq expected (the (map_of request key))))"

text \<open>
  The descriptor tree is searched from a node \<open>c\<close>: when no child of \<open>c\<close> applies to the
  normalized request, the answer is \<open>c\<close> itself; otherwise the search goes on from the first
  child, in registration order, that applies. \<open>classifies d c r\<close> says that the search
  from \<open>c\<close> on the request \<open>d\<close> ends at \<open>r\<close>.
\<close>

inductive classifies :: "dict \<Rightarrow> event_class \<Rightarrow> event_class \<Rightarrow> bool" for d where
  stay: "\<forall>e \<in> set (subclasses c). \<not> matches d e \<Longrightarrow> classifies d c c"
| descend: "subclasses c = pre @ e # post \<Longrightarrow> \<forall>x \<in> set pre. \<not> matches d x \<Longrightarrow>
     matches d e \<Longrightarrow> classifies d e r \<Longrightarrow> classifies d c r"

code_pred classifies .

text \<open>Every class below the root defines its \<open>event_identifier\<close>.\<close>

fun identified :: "event_class \<Rightarrow> bool" where
  "identified (EventClass n i subs) =
     list_all (\<lambda>e. event_identifier e \<noteq> None \<and> identified e) subs"

subsection \<open>Event.fix_attributes and Event._parse_object\<close>

text \<open>
  \<open>attributes.get("url", "")\<close> must be a string for \<open>startswith\<close> to exist; the two
  replacements of lines 105 and 106 are chained.
\<close>

definition fix_attributes :: "dict \<Rightarrow> error + dict" where
  "fix_attributes attributes =
     (case map_of attributes ''url'' of
        None \<Rightarrow> Inr attributes
      | Some (PStr url) \<Rightarrow>
          if startswith url ''https://github''
          then Inr (dict_set ''url''
                 (PStr (replace (replace url ''https://github.com'' ''https://api.github.com/repos'')
                          ''/commit/'' ''/commits/''))
                 attributes)
          else Inr attributes
      | Some _ \<Rightarrow> Inl (AttributeError ''startswith''))"

text \<open>The requester the API client works with, known by the token it authenticates with.\<close>

datatype requester = Requester string

text \<open>
  What \<open>clazz(requester=..., headers={}, attributes=value, completed=False)\<close> builds: a
  PyGithub object of class \<open>clazz\<close>.
\<close>

record github_object =
  object_class :: string
  object_requester :: "requester option"
  object_headers :: dict
  object_attributes :: dict
  object_completed :: bool

definition parse_object ::
  "requester option \<Rightarrow> string \<Rightarrow> dict option \<Rightarrow> error + github_object option" where
  "parse_object self_requester clazz value =
     (case value of
        None \<Rightarrow> Inr None
      | Some attributes \<Rightarrow>
          (case fix_attributes attributes of
             Inl e \<Rightarrow> Inl e
           | Inr fixed \<Rightarrow>
               Inr (Some \<lparr>object_class = clazz, object_requester = self_requester,
                          object_headers = [], object_attributes = fixed,
                          object_completed = False\<rparr>)))"

subsection \<open>The builtin int\<close>

text \<open>
  \<open>int(x)\<close>: a string is stripped of white space, may carry one sign, and is a run of
  decimal digits in which single underscores may separate digits. The white space of
  \<open>int\<close> is tab, line feed, vertical tab, form feed, carriage return and space, and above
  the ASCII range the next-line and no-break-space characters; the separators 28 to 31 are
  not white space here.
\<close>

definition is_space :: "char \<Rightarrow> bool" where
  "is_space c =
     (let n = of_char c :: nat
      in (9 \<le> n \<and> n \<le> 13) \<or> n = 32 \<or> n = 133 \<or> n = 160)"

definition strip :: "string \<Rightarrow> string" where
  "strip s = rev (dropWhile is_space (rev (dropWhile is_space s)))"

definition is_digit :: "char \<Rightarrow> bool" where
  "is_digit c = (let n = of_char c :: nat in 48 \<le> n \<and> n \<le> 57)"

fun parse_digits :: "bool \<Rightarrow> int \<Rightarrow> string \<Rightarrow> int option" where
  "parse_digits after_digit acc [] = (if after_digit then Some acc else None)"
| "parse_digits after_digit acc (c # cs) =
     (if is_digit c then parse_digits True (acc * 10 + (int (of_char c) - 48)) cs
      else if c = CHR ''_'' \<and> after_digit then parse_digits False acc cs
      else None)"

definition int_of_string :: "string \<Rightarrow> error + int" where
  "int_of_string s =
     (let t = strip s;
          negative = (t \<noteq> [] \<and> hd t = CHR ''-'');
          digits = (if t \<noteq> [] \<and> (hd t = CHR ''-'' \<or> hd t = CHR ''+'') then tl t else t)
      in case parse_digits False 0 digits of
           None \<Rightarrow> Inl ValueError
         | Some n \<Rightarrow> Inr (if negative then - n else n))"

fun py_int :: "pyval \<Rightarrow> error + int" where
  "py_int (PInt i) = Inr i"
| "py_int (PBool b) = Inr (if b then 1 else 0)"
| "py_int (PStr s) = int_of_string s"
| "py_int _ = Inl TypeError"

subsection \<open>Event.__init__\<close>

text \<open>
  The metadata are attributes of the class \<open>Event\<close> (lines 19 to 28), all \<open>None\<close> until
  the first event is built; \<open>__init__\<close> assigns them on the class, not on the instance.
\<close>

record event_meta =
  delivery :: pyval
  github_event :: pyval
  hook_id :: pyval
  hook_installation_target_id :: pyval
  hook_installation_target_type :: pyval
  installation_id :: pyval
  raw_body :: "dict option"
  raw_headers :: "dict option"

definition initial_meta :: event_meta where
  "initial_meta =
     \<lparr>delivery = PNone, github_event = PNone, hook_id = PNone,
      hook_installation_target_id = PNone, hook_installation_target_type = PNone,
      installation_id = PNone, raw_body = None, raw_headers = None\<rparr>"

text \<open>What \<open>__init__\<close> stores on the instance itself; \<open>gh\<close> is an opaque client handle.\<close>

record event =
  gh :: string
  requester :: "requester option"
  repository :: "github_object option"
  sender :: "github_object option"
  check_run :: "github_object option"

text \<open>\<open>kwargs.get("installation", {}).get("id")\<close>.\<close>

definition installation_id_of :: "dict \<Rightarrow> error + pyval" where
  "installation_id_of kwargs =
     (case map_of kwargs ''installation'' of
        None \<Rightarrow> Inr PNone
      | Some (PDict installation) \<Rightarrow>
          (case map_of installation ''id'' of None \<Rightarrow> Inr PNone | Some v \<Rightarrow> Inr v)
      | Some _ \<Rightarrow> Inl (AttributeError ''get''))"

text \<open>
  Lines 37 and 38: the value found is converted with \<open>int\<close> when it is truthy and kept as
  it is (\<open>None\<close>, \<open>0\<close>, an empty string) otherwise.
\<close>

definition installation_id_value :: "dict \<Rightarrow> error + pyval" where
  "installation_id_value kwargs =
     (case installation_id_of kwargs of
        Inl e \<Rightarrow> Inl e
      | Inr i \<Rightarrow>
          if truthy i
          then (case py_int i of Inl e \<Rightarrow> Inl e | Inr n \<Rightarrow> Inr (PInt n))
          else Inr i)"

text \<open>\<open>int(headers[key])\<close>.\<close>

definition int_header :: "dict \<Rightarrow> string \<Rightarrow> error + pyval" where
  "int_header headers key =
     (case dict_item headers key of
        Inl e \<Rightarrow> Inl e
      | Inr v \<Rightarrow> (case py_int v of Inl e \<Rightarrow> Inl e | Inr i \<Rightarrow> Inr (PInt i)))"

text \<open>
  \<open>__init__\<close>, statement by statement. The class attributes assigned before an exception
  stay assigned, so the class state is returned on every path.
\<close>

definition event_init ::
  "event_meta \<Rightarrow> string \<Rightarrow> requester option \<Rightarrow> dict \<Rightarrow> dict option \<Rightarrow> dict option \<Rightarrow> dict
     \<Rightarrow> (error + event) \<times> event_meta" where
  "event_init m0 gh_arg requester_arg headers sender_arg repository_arg kwargs =
     (case dict_item headers ''X-Github-Delivery'' of
        Inl e \<Rightarrow> (Inl e, m0)
      | Inr v1 \<Rightarrow> let m1 = m0\<lparr>delivery := v1\<rparr> in
     (case dict_item headers ''X-Github-Event'' of
        Inl e \<Rightarrow> (Inl e, m1)
      | Inr v2 \<Rightarrow> let m2 = m1\<lparr>github_event := v2\<rparr> in
     (case int_header headers ''X-Github-Hook-Id'' of
        Inl e \<Rightarrow> (Inl e, m2)
      | Inr v3 \<Rightarrow> let m3 = m2\<lparr>hook_id := v3\<rparr> in
     (case int_header headers ''X-Github-Hook-Installation-Target-Id'' of
        Inl e \<Rightarrow> (Inl e, m3)
      | Inr v4 \<Rightarrow> let m4 = m3\<lparr>hook_installation_target_id := v4\<rparr> in
     (case dict_item headers ''X-Github-Hook-Installation-Target-Type'' of
        Inl e \<Rightarrow> (Inl e, m4)
      | Inr v5 \<Rightarrow> let m5 = m4\<lparr>hook_installation_target_type := v5\<rparr> in
     (case installation_id_value kwargs of
        Inl e \<Rightarrow> (Inl e, m5)
      | Inr v6 \<Rightarrow>
          let m8 = m5\<lparr>installation_id := v6, raw_headers := Some headers,
                       raw_body := Some kwargs\<rparr> in
     (case parse_object requester_arg ''Repository'' repository_arg of
        Inl e \<Rightarrow> (Inl e, m8)
      | Inr repo \<Rightarrow>
     (case parse_object requester_arg ''NamedUser'' sender_arg of
        Inl e \<Rightarrow> (Inl e, m8)
      | Inr user \<Rightarrow>
          (Inr \<lparr>gh = gh_arg, requester = requester_arg, repository = repo,
                sender = user, check_run = None\<rparr>, m8)))))))))"

text \<open>
  Reading a metadata attribute through an instance: the instance's own dictionary holds
  only \<open>gh\<close>, \<open>requester\<close>, \<open>repository\<close>, \<open>sender\<close> and \<open>check_run\<close>, so the lookup falls
  through to the class attribute as it is at the time of the read.
\<close>

definition seen_delivery :: "event_meta \<Rightarrow> event \<Rightarrow> pyval" where
  "seen_delivery m self = delivery m"

definition seen_installation_id :: "event_meta \<Rightarrow> event \<Rightarrow> pyval" where
  "seen_installation_id m self = installation_id m"


section \<open>Lazy objects (githubapp/LazyCompletableGithubObject.py)\<close>

subsection \<open>What the class relies on from PyGithub\<close>

text \<open>
  A PyGithub object keeps every declared field in a cell: \<open>NotSet\<close> until a payload
  supplies the field, then a valued attribute, whose value may itself be \<open>None\<close>.
\<close>

datatype attribute = NotSet | Valued pyval

text \<open>\<open>.value\<close> of a cell: \<open>NotSet.value\<close> is \<open>None\<close>.\<close>

fun cell_value :: "attribute \<Rightarrow> pyval" where
  "cell_value NotSet = PNone"
| "cell_value (Valued v) = v"

text \<open>
  A resource class: its name, its direct bases (\<open>__bases__\<close>) and the fields it declares
  in \<open>_initAttributes\<close>, each read through a property of the same name.
\<close>

record clazz =
  class_name :: string
  bases :: "string list"
  field_names :: "string list"

text \<open>
  The instance dictionary of a lazy object. \<open>p_lazy_initialized\<close> and \<open>p_lazy_requester\<close>
  are \<open>_lazy_initialized\<close> and \<open>_lazy_requester\<close>; \<open>p_requester\<close>, \<open>p_headers\<close>,
  \<open>p_raw_data\<close>, \<open>p_completed\<close> and \<open>cells\<close> are what the PyGithub constructor stores.
\<close>

record lazy_object =
  object_clazz :: clazz
  p_lazy_initialized :: bool
  p_lazy_requester :: "requester option"
  p_requester :: "requester option"
  p_headers :: dict
  p_raw_data :: dict
  p_completed :: bool
  cells :: "(string \<times> attribute) list"

text \<open>
  \<open>_initAttributes\<close> followed by \<open>_useAttributes(attributes)\<close>: every declared field
  starts \<open>NotSet\<close> and takes the payload's value when the payload has the key.
\<close>

definition use_attributes :: "clazz \<Rightarrow> dict \<Rightarrow> (string \<times> attribute) list" where
  "use_attributes cls attributes =
     map (\<lambda>f. (f, case map_of attributes f of None \<Rightarrow> NotSet | Some v \<Rightarrow> Valued v))
       (field_names cls)"

subsection \<open>The world outside\<close>

text \<open>
  Everything \<open>lazy_requester\<close> and the fetch read from outside the object: the
  \<open>PRIVATE_KEY\<close> environment variable, the contents of \<open>private-key.pem\<close> (\<open>None\<close> when the
  file cannot be opened), \<open>Event.app_id\<close> and \<open>Event.installation_id\<close> as they are on
  the \<open>Event\<close> class at the time of the call, the token exchange
  \<open>GithubIntegration(auth=AppAuth(app_id, key)).get_access_token(installation_id).token\<close>
  and the requester's \<open>requestJsonAndCheck("GET", url)\<close>.
\<close>

record env =
  getenv_private_key :: "string option"
  private_key_pem :: "string option"
  event_app_id :: pyval
  event_installation_id :: pyval
  get_access_token :: "pyval \<Rightarrow> string \<Rightarrow> pyval \<Rightarrow> error + string"
  requestJsonAndCheck :: "requester \<Rightarrow> pyval \<Rightarrow> error + (dict \<times> dict)"

text \<open>The calls that leave the process, in the order they are made.\<close>

datatype effect =
    OpenKeyFile
  | TokenExchange pyval string pyval
  | Request requester pyval

fun is_exchange :: "effect \<Rightarrow> bool" where
  "is_exchange (TokenExchange a k i) = True"
| "is_exchange _ = False"

fun is_request :: "effect \<Rightarrow> bool" where
  "is_request (Request r u) = True"
| "is_request _ = False"

subsection \<open>__init__\<close>

text \<open>
  Lines 25 to 35. \<open>headers or {}\<close> turns a missing header dictionary into an empty one;
  the flag \<open>_lazy_initialized\<close> ends \<open>True\<close> and \<open>_lazy_requester\<close> ends \<open>None\<close>.
\<close>

definition lazy_init ::
  "clazz \<Rightarrow> requester option \<Rightarrow> dict option \<Rightarrow> dict \<Rightarrow> bool \<Rightarrow> lazy_object" where
  "lazy_init cls requester_arg headers attributes completed =
     \<lparr>object_clazz = cls,
      p_lazy_initialized = True,
      p_lazy_requester = None,
      p_requester = requester_arg,
      p_headers = (case headers of None \<Rightarrow> [] | Some h \<Rightarrow> h),
      p_raw_data = attributes,
      p_completed = completed,
      cells = use_attributes cls attributes\<rparr>"

subsection \<open>The lazy_requester property\<close>

text \<open>
  Lines 39 to 59. An unset or empty \<open>PRIVATE_KEY\<close> sends the code to the key file. The
  requester is stored on the object only after the exchange has returned a token.
\<close>

definition exchange_token ::
  "env \<Rightarrow> lazy_object \<Rightarrow> string \<Rightarrow> effect list \<Rightarrow> (error + requester) \<times> lazy_object \<times> effect list" where
  "exchange_token w self private_key made =
     (let call = TokenExchange (event_app_id w) private_key (event_installation_id w)
      in case get_access_token w (event_app_id w) private_key (event_installation_id w) of
           Inl e \<Rightarrow> (Inl e, self, made @ [call])
         | Inr token \<Rightarrow>
             (Inr (Requester token), self\<lparr>p_lazy_requester := Some (Requester token)\<rparr>,
              made @ [call]))"

definition lazy_requester ::
  "env \<Rightarrow> lazy_object \<Rightarrow> (error + requester) \<times> lazy_object \<times> effect list" where
  "lazy_requester w self =
     (case p_lazy_requester self of
        Some r \<Rightarrow> (Inr r, self, [])
      | None \<Rightarrow>
          (case getenv_private_key w of
             Some (c # cs) \<Rightarrow> exchange_token w self (c # cs) []
           | _ \<Rightarrow>
               (case private_key_pem w of
                  None \<Rightarrow> (Inl FileNotFoundError, self, [OpenKeyFile])
                | Some key \<Rightarrow> exchange_token w self key [OpenKeyFile])))"

subsection \<open>__getattribute__\<close>

text \<open>What an attribute read can return: a plain value, a requester or a cell.\<close>

datatype attr_value = Val pyval | Req requester | Cell attribute

text \<open>
  A declared field whose name is none of the names the module itself reads on the object.
\<close>

definition declared_field :: "lazy_object \<Rightarrow> string \<Rightarrow> bool" where
  "declared_field self f =
     (f \<in> set (field_names (object_clazz self)) \<and> \<not> startswith f ''_lazy''
      \<and> f \<noteq> ''lazy_requester'' \<and> f \<noteq> ''_requester'')"

text \<open>
  \<open>self.url\<close> inside the fetch (line 70) is itself read through \<open>__getattribute__\<close>, after
  \<open>self.lazy_requester\<close> has stored the requester, so the guard of line 67 is false and the
  value of the \<open>url\<close> property comes back, \<open>None\<close> included. The property follows PyGithub's
  pattern \<open>self._completeIfNotSet(self._url); return self._url.value\<close>: on an incomplete
  object whose \<open>url\<close> cell is unset, PyGithub's completion starts and raises
  \<open>IncompletableObject\<close> at once, for want of a url.
\<close>

definition read_url :: "lazy_object \<Rightarrow> error + pyval" where
  "read_url self =
     (case map_of (cells self) ''url'' of
        None \<Rightarrow> Inl (AttributeError ''url'')
      | Some c \<Rightarrow>
          if c = NotSet \<and> \<not> p_completed self then Inl IncompletableObject
          else Inr (cell_value c))"

text \<open>
  Lines 70 to 74, the fetch: the requester is obtained, the url read, the request sent, and
  the object's dictionary overwritten with the dictionary of \<open>new_self\<close>, a fresh instance of
  the same class built by \<open>__init__\<close> from the requester, the response headers and the
  payload. Every key of the old dictionary is a key of the new one, \<open>_lazy_requester\<close> (set
  to \<open>None\<close> by line 35) among them.
\<close>

definition refresh :: "env \<Rightarrow> lazy_object \<Rightarrow> (error + unit) \<times> lazy_object \<times> effect list" where
  "refresh w self =
     (case lazy_requester w self of
        (Inl e, self2, t2) \<Rightarrow> (Inl e, self2, t2)
      | (Inr r, self2, t2) \<Rightarrow>
          (case read_url self2 of
             Inl e \<Rightarrow> (Inl e, self2, t2)
           | Inr url \<Rightarrow>
               (case requestJsonAndCheck w r url of
                  Inl e \<Rightarrow> (Inl e, self2, t2 @ [Request r url])
                | Inr (headers, data) \<Rightarrow>
                    (Inr (), lazy_init (object_clazz self2) (Some r) (Some headers) data True,
                     t2 @ [Request r url]))))"

text \<open>
  \<open>self._requester\<close> as PyGithub's code reads it, through \<open>__getattribute__\<close>: a requester
  that is there is returned; a missing one is a \<open>None\<close> value, which on an initialized
  object with no lazy requester runs the fetch and then reads \<open>_requester\<close> again.
\<close>

definition read_requester ::
  "env \<Rightarrow> lazy_object \<Rightarrow> (error + requester option) \<times> lazy_object \<times> effect list" where
  "read_requester w self =
     (case p_requester self of
        Some r \<Rightarrow> (Inr (Some r), self, [])
      | None \<Rightarrow>
          if p_lazy_initialized self \<and> p_lazy_requester self = None
          then (case refresh w self of
                  (Inl e, self', effects) \<Rightarrow> (Inl e, self', effects)
                | (Inr u, self', effects) \<Rightarrow> (Inr (p_requester self'), self', effects))
          else (Inr None, self, []))"

text \<open>
  \<open>_useAttributes(data)\<close> on an object that has its cells already: the fields the payload
  holds take its values, the others stay.
\<close>

definition store_attributes :: "(string \<times> attribute) list \<Rightarrow> dict \<Rightarrow> (string \<times> attribute) list" where
  "store_attributes cs attributes =
     map (\<lambda>(f, c). (f, case map_of attributes f of None \<Rightarrow> c | Some v \<Rightarrow> Valued v)) cs"

text \<open>
  PyGithub's completion of an incomplete object:
  \<^verbatim>\<open>
  if self._url.value is None: raise IncompletableObject(...)
  headers, data = self._requester.requestJsonAndCheck("GET", self._url.value)
  self._storeAndUseAttributes(headers, data)
  self.__completed = True
  \<close>
  \<open>self._requester\<close> is evaluated before the argument \<open>self._url.value\<close>, which is
  therefore read from the object as the fetch, if one ran, has left it.
\<close>

definition complete :: "env \<Rightarrow> lazy_object \<Rightarrow> (error + unit) \<times> lazy_object \<times> effect list" where
  "complete w self =
     (case map_of (cells self) ''url'' of
        None \<Rightarrow> (Inl (AttributeError ''_url''), self, [])
      | Some c \<Rightarrow>
          if cell_value c = PNone then (Inl IncompletableObject, self, [])
          else (case read_requester w self of
                  (Inl e, self1, t1) \<Rightarrow> (Inl e, self1, t1)
                | (Inr None, self1, t1) \<Rightarrow>
                    (Inl (AttributeError ''requestJsonAndCheck''), self1, t1)
                | (Inr (Some r), self1, t1) \<Rightarrow>
                    (case map_of (cells self1) ''url'' of
                       None \<Rightarrow> (Inl (AttributeError ''_url''), self1, t1)
                     | Some c1 \<Rightarrow>
                         (case requestJsonAndCheck w r (cell_value c1) of
                            Inl e \<Rightarrow> (Inl e, self1, t1 @ [Request r (cell_value c1)])
                          | Inr (headers, data) \<Rightarrow>
                              (Inr (),
                               self1\<lparr>p_headers := headers, p_raw_data := data,
                                      p_completed := True,
                                      cells := store_attributes (cells self1) data\<rparr>,
                               t1 @ [Request r (cell_value c1)])))))"

text \<open>
  A field's property, following PyGithub's pattern
  \<open>self._completeIfNotSet(self._f); return self._f.value\<close>: on a complete object, or when
  the cell is set, it returns the cell's value; on an incomplete object with an unset cell
  it completes the object first.
\<close>

definition field_property ::
  "env \<Rightarrow> lazy_object \<Rightarrow> string \<Rightarrow> (error + attr_value) \<times> lazy_object \<times> effect list" where
  "field_property w self f =
     (case map_of (cells self) f of
        None \<Rightarrow> (Inl (AttributeError f), self, [])
      | Some c \<Rightarrow>
          if c = NotSet \<and> \<not> p_completed self
          then (case complete w self of
                  (Inl e, self1, t1) \<Rightarrow> (Inl e, self1, t1)
                | (Inr u, self1, t1) \<Rightarrow>
                    (case map_of (cells self1) f of
                       None \<Rightarrow> (Inl (AttributeError f), self1, t1)
                     | Some c1 \<Rightarrow> (Inr (Val (cell_value c1)), self1, t1)))
          else (Inr (Val (cell_value c)), self, []))"

text \<open>
  \<open>super().__getattribute__(item)\<close>, the ordinary lookup, for the names the module deals
  with: its two bookkeeping attributes, the \<open>lazy_requester\<close> property, \<open>_requester\<close>,
  the declared fields and their cells \<open>_f\<close>. Any other name is an \<open>AttributeError\<close>.
\<close>

definition object_getattribute ::
  "env \<Rightarrow> lazy_object \<Rightarrow> string \<Rightarrow> (error + attr_value) \<times> lazy_object \<times> effect list" where
  "object_getattribute w self item =
     (if item = ''_lazy_initialized'' then (Inr (Val (PBool (p_lazy_initialized self))), self, [])
      else if item = ''_lazy_requester''
        then (Inr (case p_lazy_requester self of None \<Rightarrow> Val PNone | Some r \<Rightarrow> Req r), self, [])
      else if item = ''lazy_requester''
        then (case lazy_requester w self of
                (Inl e, self', effects) \<Rightarrow> (Inl e, self', effects)
              | (Inr r, self', effects) \<Rightarrow> (Inr (Req r), self', effects))
      else if item = ''_requester''
        then (Inr (case p_requester self of None \<Rightarrow> Val PNone | Some r \<Rightarrow> Req r), self, [])
      else if item \<in> set (field_names (object_clazz self))
        then field_property w self item
      else (case item of
              c # f \<Rightarrow>
                (if c = CHR ''_'' \<and> f \<in> set (field_names (object_clazz self))
                 then (case map_of (cells self) f of
                         None \<Rightarrow> (Inl (AttributeError item), self, [])
                       | Some cell \<Rightarrow> (Inr (Cell cell), self, []))
                 else (Inl (AttributeError item), self, []))
            | [] \<Rightarrow> (Inl (AttributeError item), self, [])))"

text \<open>
  Lines 63 to 76: the ordinary lookup, the guard of lines 64 to 69 on the object as the
  lookup left it, the fetch, and the lookup once more on the refreshed object.
\<close>

definition getattribute ::
  "env \<Rightarrow> lazy_object \<Rightarrow> string \<Rightarrow> (error + attr_value) \<times> lazy_object \<times> effect list" where
  "getattribute w self item =
     (case object_getattribute w self item of
        (Inl e, self1, t1) \<Rightarrow> (Inl e, self1, t1)
      | (Inr value, self1, t1) \<Rightarrow>
          if \<not> startswith item ''_lazy'' \<and> p_lazy_initialized self1
             \<and> p_lazy_requester self1 = None \<and> value = Val PNone
          then (case refresh w self1 of
                  (Inl e, self2, t2) \<Rightarrow> (Inl e, self2, t1 @ t2)
                | (Inr u, self2, t2) \<Rightarrow>
                    (case object_getattribute w self2 item of
                       (result, self3, t3) \<Rightarrow> (result, self3, t1 @ t2 @ t3)))
          else (Inr value, self1, t1))"

subsection \<open>get_lazy_instance\<close>

definition lazy_base :: string where
  "lazy_base = ''LazyCompletableGithubObject''"

text \<open>
  Lines 81 to 85: the class gets the lazy base in front of its bases unless it is already
  one of them; the instance is \<open>clazz(attributes=attributes)\<close>, built by the \<open>__init__\<close>
  above with its defaults for the other arguments.
\<close>

definition get_lazy_instance :: "clazz \<Rightarrow> dict \<Rightarrow> clazz \<times> lazy_object" where
  "get_lazy_instance cls attributes =
     (let cls' = (if lazy_base \<notin> set (bases cls)
                  then cls\<lparr>bases := lazy_base # bases cls\<rparr> else cls)
      in (cls', lazy_init cls' None None attributes True))"

section \<open>Configuration (githubapp/config.py)\<close>

text \<open>
  A configuration object is a \<open>ConfigValue\<close> with its instance dictionary (\<open>_value\<close> and
  whatever \<open>set_values\<close> stored), a plain value, or an attribute found on a class (a method).
\<close>

datatype config = ConfigValue "(string \<times> config) list" | Basic pyval | ClassAttribute string

text \<open>
  \<open>getattr(obj, name)\<close>. On a \<open>ConfigValue\<close> the ordinary lookup finds the instance
  dictionary and the names defined by the class and by \<open>object\<close> (\<open>class_attrs\<close>); when it
  fails, \<open>__getattr__\<close> (lines 75 and 76) raises \<open>ConfigError\<close>. On another object the
  lookup is that of its builtin type (\<open>builtin_attr\<close>) and fails with \<open>AttributeError\<close>.
\<close>

definition py_getattr ::
  "string list \<Rightarrow> (config \<Rightarrow> string \<Rightarrow> config option) \<Rightarrow> config \<Rightarrow> string \<Rightarrow> error + config" where
  "py_getattr class_attrs builtin_attr obj name =
     (case obj of
        ConfigValue d \<Rightarrow>
          (case map_of d name of
             Some v \<Rightarrow> Inr v
           | None \<Rightarrow>
               if name \<in> set class_attrs then Inr (ClassAttribute name)
               else Inl (ConfigError name))
      | _ \<Rightarrow>
          (case builtin_attr obj name of
             Some v \<Rightarrow> Inr v
           | None \<Rightarrow> Inl (AttributeError name)))"

text \<open>\<open>config_name.split(".")\<close>.\<close>

fun split_dot :: "string \<Rightarrow> string list" where
  "split_dot [] = [[]]"
| "split_dot (c # cs) =
     (if c = CHR ''.'' then [] # split_dot cs
      else (case split_dot cs of w # ws \<Rightarrow> (c # w) # ws | [] \<Rightarrow> [[c]]))"

text \<open>\<open>default == "__NO_DEFAULT__"\<close>.\<close>

fun is_no_default :: "config \<Rightarrow> bool" where
  "is_no_default (Basic v) = py_eq v (PStr ''__NO_DEFAULT__'')"
| "is_no_default _ = False"

text \<open>
  The loop of \<open>get\<close> (lines 80 to 85). \<open>getattr(value, name, default)\<close> answers \<open>default\<close>
  where the two-argument form raises \<open>AttributeError\<close> or its subclass \<open>ConfigError\<close>.
\<close>

fun get_loop ::
  "string list \<Rightarrow> (config \<Rightarrow> string \<Rightarrow> config option) \<Rightarrow> config \<Rightarrow> string list \<Rightarrow> config
     \<Rightarrow> error + config" where
  "get_loop class_attrs builtin_attr value [] dflt = Inr value"
| "get_loop class_attrs builtin_attr value (name # names) dflt =
     (if is_no_default dflt
      then (case py_getattr class_attrs builtin_attr value name of
              Inl e \<Rightarrow> Inl e
            | Inr v \<Rightarrow> get_loop class_attrs builtin_attr v names dflt)
      else (case py_getattr class_attrs builtin_attr value name of
              Inl e \<Rightarrow> get_loop class_attrs builtin_attr dflt names dflt
            | Inr v \<Rightarrow> get_loop class_attrs builtin_attr v names dflt))"

definition no_default :: config where
  "no_default = Basic (PStr ''__NO_DEFAULT__'')"

definition get ::
  "string list \<Rightarrow> (config \<Rightarrow> string \<Rightarrow> config option) \<Rightarrow> config \<Rightarrow> string \<Rightarrow> config
     \<Rightarrow> error + config" where
  "get class_attrs builtin_attr self config_name dflt =
     get_loop class_attrs builtin_attr self (split_dot config_name) dflt"


section \<open>Concrete inputs\<close>

text \<open>A webhook as GitHub sends it, and a second one of another delivery.\<close>

definition pr_headers :: dict where
  "pr_headers =
     [(''X-Github-Delivery'', PStr ''d1''), (''X-Github-Event'', PStr ''pull_request''),
      (''X-Github-Hook-Id'', PStr ''1''), (''X-Github-Hook-Installation-Target-Id'', PStr ''2''),
      (''X-Github-Hook-Installation-Target-Type'', PStr ''integration'')]"

definition pr_body :: dict where
  "pr_body = [(''action'', PStr ''opened''), (''installation'', PDict [(''id'', PInt 55)])]"

definition push_headers :: dict where
  "push_headers =
     [(''X-Github-Delivery'', PStr ''d2''), (''X-Github-Event'', PStr ''push''),
      (''X-Github-Hook-Id'', PStr ''7''), (''X-Github-Hook-Installation-Target-Id'', PStr ''2''),
      (''X-Github-Hook-Installation-Target-Type'', PStr ''integration'')]"

definition push_body :: dict where
  "push_body = [(''ref'', PStr ''main''), (''installation'', PDict [(''id'', PInt 56)])]"

text \<open>A body whose key collides with the normalized event header.\<close>

definition colliding_body :: dict where
  "colliding_body = [(''event'', PStr ''issues'')]"

text \<open>A small taxonomy: pull requests, with the opened ones below, and pushes.\<close>

definition pr_opened_event :: event_class where
  "pr_opened_event =
     EventClass ''PullRequestOpenedEvent''
       (Some [(''event'', PStr ''pull_request''), (''action'', PStr ''opened'')]) []"

definition pr_event :: event_class where
  "pr_event =
     EventClass ''PullRequestEvent'' (Some [(''event'', PStr ''pull_request'')]) [pr_opened_event]"

definition push_event :: event_class where
  "push_event = EventClass ''PushEvent'' (Some [(''event'', PStr ''push'')]) []"

definition root_event :: event_class where
  "root_event = EventClass ''Event'' None [pr_event, push_event]"

text \<open>A taxonomy whose first registered class has an empty identifier.\<close>

definition any_event :: event_class where
  "any_event = EventClass ''AnyEvent'' (Some []) []"

definition shadowed_root :: event_class where
  "shadowed_root = EventClass ''Event'' None [any_event, pr_event, push_event]"

text \<open>The class of the repository's test, with a \<open>url\<close> field beside \<open>attr1\<close>.\<close>

definition lazy_class :: clazz where
  "lazy_class =
     \<lparr>class_name = ''LazyClass'', bases = [''CompletableGithubObject''],
      field_names = [''attr1'', ''url'']\<rparr>"

definition resource_url :: pyval where
  "resource_url = PStr ''https://api.github.com/repos/org/repo''"

text \<open>
  Worlds: the key is in the environment and the exchange yields a token in all of them;
  the request answers a payload with \<open>attr1\<close>, or one without it, or fails.
\<close>

definition world_full :: env where
  "world_full =
     \<lparr>getenv_private_key = Some ''private-key'', private_key_pem = None,
      event_app_id = PInt 123, event_installation_id = PInt 55,
      get_access_token = (\<lambda>app key inst. Inr ''token''),
      requestJsonAndCheck =
        (\<lambda>r url. Inr ([], [(''attr1'', PStr ''value1''), (''url'', resource_url)]))\<rparr>"

definition world_partial :: env where
  "world_partial = world_full\<lparr>requestJsonAndCheck := (\<lambda>r url. Inr ([], [(''url'', resource_url)]))\<rparr>"

definition world_down :: env where
  "world_down = world_full\<lparr>requestJsonAndCheck := (\<lambda>r url. Inl (GithubException ''404''))\<rparr>"

definition world_no_key :: env where
  "world_no_key = world_full\<lparr>getenv_private_key := None\<rparr>"

text \<open>Resources built by \<open>get_lazy_instance\<close>: \<open>attr1\<close> absent, and \<open>attr1\<close> present as \<open>None\<close>.\<close>

definition resource_absent :: lazy_object where
  "resource_absent = snd (get_lazy_instance lazy_class [(''url'', resource_url)])"


text \<open>The object left behind by a read, and the calls a read makes.\<close>

definition after_read :: "env \<Rightarrow> lazy_object \<Rightarrow> string \<Rightarrow> lazy_object" where
  "after_read w self item = fst (snd (getattribute w self item))"

definition effects_of :: "env \<Rightarrow> lazy_object \<Rightarrow> string \<Rightarrow> effect list" where
  "effects_of w self item = snd (snd (getattribute w self item))"

text \<open>
  An instance of the grafted class built incomplete and without a requester, as
  \<open>clazz(requester=None, headers={}, attributes=..., completed=False)\<close> builds it.
\<close>

definition resource_incomplete :: lazy_object where
  "resource_incomplete =
     lazy_init (fst (get_lazy_instance lazy_class [])) None (Some [])
       [(''url'', resource_url)] False"

definition resource_other :: lazy_object where
  "resource_other =
     snd (get_lazy_instance lazy_class [(''url'', PStr ''https://api.github.com/users/octocat'')])"

text \<open>Two events built one after the other, the second on the class state the first left.\<close>

definition first_construction :: "(error + event) \<times> event_meta" where
  "first_construction = event_init initial_meta ''gh'' None pr_headers None None pr_body"

definition second_construction :: "(error + event) \<times> event_meta" where
  "second_construction =
     event_init (snd first_construction) ''gh'' None push_headers None None push_body"

definition meta_after_first :: event_meta where
  "meta_after_first =
     \<lparr>delivery = PStr ''d1'', github_event = PStr ''pull_request'', hook_id = PInt 1,
      hook_installation_target_id = PInt 2, hook_installation_target_type = PStr ''integration'',
      installation_id = PInt 55, raw_body = Some pr_body, raw_headers = Some pr_headers\<rparr>"

definition meta_after_second :: event_meta where
  "meta_after_second =
     \<lparr>delivery = PStr ''d2'', github_event = PStr ''push'', hook_id = PInt 7,
      hook_installation_target_id = PInt 2, hook_installation_target_type = PStr ''integration'',
      installation_id = PInt 56, raw_body = Some push_body, raw_headers = Some push_headers\<rparr>"

definition first_event :: event where
  "first_event =
     \<lparr>gh = ''gh'', requester = None, repository = None, sender = None, check_run = None\<rparr>"

text \<open>
  A configuration with one nested section, and the names found by the ordinary lookup on
  any \<open>ConfigValue\<close>: those of the class body and those of \<open>object\<close>.
\<close>

definition sample_config :: config where
  "sample_config =
     ConfigValue
       [(''_value'', Basic PNone),
        (''server'', ConfigValue [(''_value'', Basic PNone), (''port'', Basic (PInt 8080))])]"

definition config_class_attrs :: "string list" where
  "config_class_attrs =
     [''__module__'', ''__doc__'', ''__init__'', ''set_values'', ''create_config'',
      ''load_config_from_file'', ''__getattr__'', ''get'', ''call_if'', ''__dict__'',
      ''__weakref__'', ''__new__'', ''__repr__'', ''__hash__'', ''__str__'',
      ''__getattribute__'', ''__setattr__'', ''__delattr__'', ''__lt__'', ''__le__'',
      ''__eq__'', ''__ne__'', ''__gt__'', ''__ge__'', ''__reduce_ex__'', ''__reduce__'',
      ''__getstate__'', ''__subclasshook__'', ''__init_subclass__'', ''__format__'',
      ''__sizeof__'', ''__dir__'', ''__class__'']"

text \<open>
  The attribute lookup on plain values, for names that none of their types defines, such
  as \<open>host\<close>: it finds nothing.
\<close>

definition no_builtin_attr :: "config \<Rightarrow> string \<Rightarrow> config option" where
  "no_builtin_attr obj name = None"

section \<open>Normalization\<close>

lemma map_of_dict_set: "map_of (dict_set k v d) = (map_of d)(k \<mapsto> v)"
  by (induction d) (auto simp: fun_eq_iff)

text \<open>Whatever the loop starts from, the entries it adds take precedence.\<close>

lemma map_of_normalize_items:
  "map_of (normalize_items u d) k =
     (case map_of (normalize_items [] d) k of None \<Rightarrow> map_of u k | Some v \<Rightarrow> Some v)"
proof (induction d arbitrary: u)
  case Nil
  then show ?case by simp
next
  case (Cons item rest)
  show ?case
    by (simp add: Cons.IH [of "dict_set (normalize_attr (fst item)) (snd item) u"]
          Cons.IH [of "[(normalize_attr (fst item), snd item)]"] map_of_dict_set
        split: option.splits)
qed

text \<open>
  C1, as the code has it: when a normalized key arises from the headers and from the body,
  the normalized mapping holds the body's value, the one merged later.
\<close>

theorem normalize_dicts_later_wins:
  assumes "map_of (normalize_dicts [headers]) k = Some v1"
      and "map_of (normalize_dicts [body]) k = Some v2"
  shows "map_of (normalize_dicts [headers, body]) k = Some v2"
  using assms(2)
  by (simp add: normalize_dicts_def map_of_normalize_items [of "normalize_items [] headers" body])

theorem normalize_dicts_later_wins_witness:
  "map_of (normalize_dicts [pr_headers]) ''event'' = Some (PStr ''pull_request'')
   \<and> map_of (normalize_dicts [colliding_body]) ''event'' = Some (PStr ''issues'')
   \<and> map_of (normalize_dicts [pr_headers, colliding_body]) ''event'' = Some (PStr ''issues'')"
proof -
  have h: "map_of (normalize_dicts [pr_headers]) ''event'' = Some (PStr ''pull_request'')"
    by code_simp
  have b: "map_of (normalize_dicts [colliding_body]) ''event'' = Some (PStr ''issues'')"
    by code_simp
  show ?thesis using h b normalize_dicts_later_wins [OF h b] by simp
qed

text \<open>
  C1 as stated fails: the header \<open>X-Github-Event\<close> and the body key \<open>event\<close> normalize to
  the same key, and the value of the headers, merged first, is not the one kept.
\<close>

theorem normalize_dicts_earlier_lost:
  "normalize_attr ''X-Github-Event'' = normalize_attr ''event''
   \<and> map_of (normalize_dicts [pr_headers]) ''event'' = Some (PStr ''pull_request'')
   \<and> map_of (normalize_dicts [pr_headers, colliding_body]) ''event'' \<noteq> Some (PStr ''pull_request'')"
  by code_simp

section \<open>Classification\<close>

text \<open>
  \<open>Event.match\<close> computes the specification's \<open>match\<close> on every class that has an
  identifier.
\<close>

lemma match_matches:
  assumes "event_identifier e = Some required_fields"
  shows "match e d = Inr (matches d e)"
proof -
  have "(case map_of d key of None \<Rightarrow> False | Some v \<Rightarrow> py_eq expected v)
      = (key \<in> fst ` set d \<and> py_eq expected (the (map_of d key)))" for key expected
  proof (cases "map_of d key")
    case None
    then have "key \<notin> fst ` set d" by (simp add: map_of_eq_None_iff)
    with None show ?thesis by simp
  next
    case (Some v)
    then have "(key, v) \<in> set d" by (rule map_of_SomeD)
    then have "key \<in> fst ` set d" by force
    with Some show ?thesis by simp
  qed
  then show ?thesis
    using assms by (simp add: match_def matches_def list_all_iff case_prod_unfold)
qed

lemma first_split_unique:
  "pre @ e # post = pre' @ e' # post' \<Longrightarrow> \<forall>x \<in> set pre. \<not> P x \<Longrightarrow> P e \<Longrightarrow>
   \<forall>x \<in> set pre'. \<not> P x \<Longrightarrow> P e' \<Longrightarrow> pre = pre' \<and> e = e'"
proof (induction pre arbitrary: pre')
  case Nil
  then show ?case by (cases pre') auto
next
  case (Cons a pre)
  then show ?case by (cases pre') auto
qed

text \<open>The search has one answer at most.\<close>

lemma classifies_unique: "classifies d c r \<Longrightarrow> classifies d c r' \<Longrightarrow> r = r'"
proof (induction arbitrary: r' rule: classifies.induct)
  case (stay c)
  from stay.prems stay.hyps show ?case
    by (cases rule: classifies.cases) auto
next
  case (descend c pre e post r)
  from descend.prems show ?case
  proof (cases rule: classifies.cases)
    case stay
    with descend.hyps show ?thesis by auto
  next
    case (descend pre' e' post')
    have eq: "pre @ e # post = pre' @ e' # post'"
      using descend.hyps(1) descend(1) by simp
    have "pre = pre' \<and> e = e'"
      by (rule first_split_unique [where P = "matches d",
            OF eq descend.hyps(2) descend.hyps(3) descend(2) descend(3)])
    then show ?thesis using descend.IH descend(4) by blast
  qed
qed

text \<open>
  The function and its loop together: the loop, having skipped a prefix of the subclasses
  none of which applies, ends where the search from the class ends.
\<close>

lemma get_event_both:
  "(identified cls \<longrightarrow>
      (\<exists>r. get_event cls headers body = Inr r \<and>
           classifies (normalize_dicts [headers, body]) cls r))"
  "(union_dict = normalize_dicts [headers, body] \<longrightarrow>
    list_all (\<lambda>e. event_identifier e \<noteq> None \<and> identified e) rest \<longrightarrow>
    (\<exists>pre. subclasses event_class = pre @ rest \<and> (\<forall>x \<in> set pre. \<not> matches union_dict x)) \<longrightarrow>
      (\<exists>r. get_event_loop event_class rest union_dict headers body = Inr r \<and>
           classifies union_dict event_class r))"
proof (induction cls headers body and event_class rest union_dict headers body
       rule: get_event_get_event_loop.induct)
  case (1 n i subs headers body)
  show ?case
  proof
    assume "identified (EventClass n i subs)"
    then have "list_all (\<lambda>e. event_identifier e \<noteq> None \<and> identified e) subs" by simp
    moreover have "\<exists>pre. subclasses (EventClass n i subs) = pre @ subs \<and>
        (\<forall>x \<in> set pre. \<not> matches (normalize_dicts [headers, body]) x)"
      by (rule exI [of _ "[]"]) simp
    ultimately show "\<exists>r. get_event (EventClass n i subs) headers body = Inr r \<and>
        classifies (normalize_dicts [headers, body]) (EventClass n i subs) r"
      using 1 by simp
  qed
next
  case (2 event_class union_dict headers body)
  show ?case
  proof (intro impI)
    assume "\<exists>pre. subclasses event_class = pre @ [] \<and>
        (\<forall>x \<in> set pre. \<not> matches union_dict x)"
    then have "\<forall>e \<in> set (subclasses event_class). \<not> matches union_dict e" by auto
    then have "classifies union_dict event_class event_class" by (rule classifies.stay)
    then show "\<exists>r. get_event_loop event_class [] union_dict headers body = Inr r \<and>
        classifies union_dict event_class r" by simp
  qed
next
  case (3 event_class event rest union_dict headers body)
  show ?case
  proof (intro impI)
    assume u: "union_dict = normalize_dicts [headers, body]"
      and good: "list_all (\<lambda>e. event_identifier e \<noteq> None \<and> identified e) (event # rest)"
      and "\<exists>pre. subclasses event_class = pre @ event # rest \<and>
        (\<forall>x \<in> set pre. \<not> matches union_dict x)"
    then obtain pre where pre: "subclasses event_class = pre @ event # rest"
      "\<forall>x \<in> set pre. \<not> matches union_dict x" by blast
    from good have ev: "event_identifier event \<noteq> None" "identified event"
      and rest: "list_all (\<lambda>e. event_identifier e \<noteq> None \<and> identified e) rest" by simp_all
    from ev(1) have m: "match event union_dict = Inr (matches union_dict event)"
      using match_matches by blast
    show "\<exists>r. get_event_loop event_class (event # rest) union_dict headers body = Inr r \<and>
        classifies union_dict event_class r"
    proof (cases "matches union_dict event")
      case True
      with m have yes: "match event union_dict = Inr True" by simp
      with 3(1) [of True] ev(2) u obtain r where
        r: "get_event event headers body = Inr r" "classifies union_dict event r"
        by auto
      from pre(1) pre(2) True r(2) have "classifies union_dict event_class r"
        by (rule classifies.descend)
      with yes r(1) show ?thesis by simp
    next
      case False
      with m have no: "match event union_dict = Inr False" by simp
      have "\<exists>pre'. subclasses event_class = pre' @ rest \<and>
          (\<forall>x \<in> set pre'. \<not> matches union_dict x)"
        by (rule exI [of _ "pre @ [event]"]) (use pre False in auto)
      with 3(2) [of False] no u rest obtain r where
        "get_event_loop event_class rest union_dict headers body = Inr r"
        "classifies union_dict event_class r"
        by auto
      with no show ?thesis by simp
    qed
  qed
qed

text \<open>
  C6: on a taxonomy whose classes below the root all define their identifier, \<open>get_event\<close>
  never fails and returns the class at which the depth-first search of the specification
  ends: it descends into the first subclass, in registration order, all of whose required
  fields are in the normalized request with equal values, and answers the class reached
  when no subclass applies, the root itself when none applies at the top. That class is
  the only such answer.
\<close>

theorem get_event_classifies:
  assumes "identified cls"
  shows "\<exists>r. get_event cls headers body = Inr r \<and>
           classifies (normalize_dicts [headers, body]) cls r \<and>
           (\<forall>r'. classifies (normalize_dicts [headers, body]) cls r' \<longrightarrow> r' = r)"
  using get_event_both(1) [of cls headers body] assms classifies_unique by blast

theorem get_event_classifies_witness:
  "identified root_event
   \<and> get_event root_event pr_headers pr_body = Inr pr_opened_event
   \<and> classifies (normalize_dicts [pr_headers, pr_body]) root_event pr_opened_event
   \<and> \<not> classifies (normalize_dicts [pr_headers, pr_body]) root_event push_event"
proof -
  have i: "identified root_event" by code_simp
  have g: "get_event root_event pr_headers pr_body = Inr pr_opened_event" by code_simp
  have n: "push_event \<noteq> pr_opened_event" by code_simp
  from get_event_classifies [OF i, of pr_headers pr_body] g n
  have "classifies (normalize_dicts [pr_headers, pr_body]) root_event pr_opened_event
     \<and> \<not> classifies (normalize_dicts [pr_headers, pr_body]) root_event push_event" by auto
  with i g show ?thesis by simp
qed

text \<open>
  C10: a class whose identifier is the empty mapping matches every request, and when it is
  the first registered subclass the classification goes into it whatever its siblings are.
\<close>

theorem empty_identifier_shadows:
  assumes "event_identifier e = Some []"
  shows "match e data = Inr True
       \<and> (subclasses cls = e # siblings \<longrightarrow>
            get_event cls headers body = get_event e headers body)"
proof
  show m: "match e data = Inr True" for data using assms by (simp add: match_def)
  show "subclasses cls = e # siblings \<longrightarrow> get_event cls headers body = get_event e headers body"
    by (cases cls) (simp add: m)
qed

theorem empty_identifier_shadows_witness:
  "event_identifier any_event = Some []
   \<and> subclasses shadowed_root = any_event # [pr_event, push_event]
   \<and> match pr_event (normalize_dicts [pr_headers, pr_body]) = Inr True
   \<and> get_event shadowed_root pr_headers pr_body = Inr any_event"
proof -
  have a: "event_identifier any_event = Some []" by (simp add: any_event_def)
  have s: "subclasses shadowed_root = any_event # [pr_event, push_event]"
    by (simp add: shadowed_root_def)
  have m: "match pr_event (normalize_dicts [pr_headers, pr_body]) = Inr True" by code_simp
  have g: "get_event any_event pr_headers pr_body = Inr any_event" by code_simp
  from empty_identifier_shadows [OF a, of _ shadowed_root "[pr_event, push_event]" pr_headers pr_body] s g
  have "get_event shadowed_root pr_headers pr_body = Inr any_event" by simp
  with a s m show ?thesis by simp
qed

section \<open>Lazy objects\<close>

lemma lazy_requester_cached:
  "p_lazy_requester self = Some r \<Longrightarrow> lazy_requester w self = (Inr r, self, [])"
  by (simp add: lazy_requester_def)

lemma exchange_token_success:
  "exchange_token w self key made = (Inr r, self', t) \<Longrightarrow>
     self' = self\<lparr>p_lazy_requester := Some r\<rparr> \<and>
     t = made @ [TokenExchange (event_app_id w) key (event_installation_id w)]"
  by (auto simp: exchange_token_def Let_def split: sum.splits)

lemma exchange_token_failure:
  "exchange_token w self key made = (Inl e, self', t) \<Longrightarrow>
     self' = self \<and> t = made @ [TokenExchange (event_app_id w) key (event_installation_id w)]"
  by (auto simp: exchange_token_def Let_def split: sum.splits)

lemma lazy_requester_success:
  assumes "lazy_requester w self = (Inr r, self', t)" "p_lazy_requester self = None"
  shows "self' = self\<lparr>p_lazy_requester := Some r\<rparr>"
    and "filter is_request t = []"
    and "length (filter is_exchange t) = 1"
  using assms
  by (auto simp: lazy_requester_def split: option.splits list.splits
           dest!: exchange_token_success)

lemma lazy_requester_failure:
  assumes "lazy_requester w self = (Inl e, self', t)"
  shows "self' = self" and "filter is_request t = []" and "length (filter is_exchange t) \<le> 1"
    and "t \<noteq> []"
  using assms
  by (auto simp: lazy_requester_def split: option.splits list.splits
           dest!: exchange_token_failure)

lemma lazy_requester_exchanges:
  "lazy_requester w self = (res, s, t) \<Longrightarrow> length (filter is_exchange t) \<le> 1"
  by (auto simp: lazy_requester_def exchange_token_def Let_def
           split: option.splits list.splits sum.splits)

lemma map_of_use_attributes:
  "f \<in> set (field_names cls) \<Longrightarrow>
     map_of (use_attributes cls a) f =
       Some (case map_of a f of None \<Rightarrow> NotSet | Some v \<Rightarrow> Valued v)"
  unfolding use_attributes_def
  by (induction "field_names cls" arbitrary: cls) (auto simp: map_of_map_restrict)

lemma not_lazy_names:
  assumes "\<not> startswith f ''_lazy''"
  shows "f \<noteq> ''_lazy_initialized''" "f \<noteq> ''_lazy_requester''"
proof -
  have "startswith ''_lazy_initialized'' ''_lazy''" by (simp add: startswith_def)
  with assms show "f \<noteq> ''_lazy_initialized''" by blast
  have "startswith ''_lazy_requester'' ''_lazy''" by (simp add: startswith_def)
  with assms show "f \<noteq> ''_lazy_requester''" by blast
qed

text \<open>On a complete object a field's property only reads the cell.\<close>

lemma field_property_value:
  assumes "map_of (cells self) f = Some c" "p_completed self"
  shows "field_property w self f = (Inr (Val (cell_value c)), self, [])"
  using assms by (simp add: field_property_def)

lemma read_url_requester [simp]:
  "read_url (self\<lparr>p_lazy_requester := x\<rparr>) = read_url self"
  by (simp add: read_url_def split: option.splits)

lemma declared_field_lazy_init:
  "declared_field self f \<Longrightarrow> declared_field (lazy_init (object_clazz self) r h d c) f"
  by (simp add: declared_field_def lazy_init_def)

lemma field_read:
  assumes "declared_field self f"
  shows "object_getattribute w self f = field_property w self f"
proof -
  from assms have n: "\<not> startswith f ''_lazy''" "f \<noteq> ''lazy_requester''" "f \<noteq> ''_requester''"
    "f \<in> set (field_names (object_clazz self))"
    by (simp_all add: declared_field_def)
  note m = not_lazy_names [OF n(1)]
  show ?thesis
    unfolding object_getattribute_def
    by (simp only: m n if_False if_True)
qed

text \<open>The fetch, when every step of it succeeds, and when the request fails.\<close>

lemma refresh_success:
  assumes "p_lazy_requester self = None"
    and req: "lazy_requester w self = (Inr r, self2, t2)"
    and url: "read_url self = Inr url"
    and fetch: "requestJsonAndCheck w r url = Inr (headers, data)"
  shows "refresh w self =
           (Inr (), lazy_init (object_clazz self) (Some r) (Some headers) data True,
            t2 @ [Request r url])"
proof -
  have s2: "self2 = self\<lparr>p_lazy_requester := Some r\<rparr>"
    using lazy_requester_success(1) [OF req assms(1)] .
  then have "read_url self2 = Inr url" "object_clazz self2 = object_clazz self"
    using url by simp_all
  then show ?thesis by (simp add: refresh_def req fetch)
qed

lemma refresh_request_failure:
  assumes "p_lazy_requester self = None"
    and req: "lazy_requester w self = (Inr r, self2, t2)"
    and url: "read_url self = Inr url"
    and fail: "requestJsonAndCheck w r url = Inl e"
  shows "refresh w self = (Inl e, self\<lparr>p_lazy_requester := Some r\<rparr>, t2 @ [Request r url])"
proof -
  have s2: "self2 = self\<lparr>p_lazy_requester := Some r\<rparr>"
    using lazy_requester_success(1) [OF req assms(1)] .
  then have "read_url self2 = Inr url" using url by simp
  then show ?thesis by (simp add: refresh_def req fail s2)
qed

lemma refresh_requester_failure:
  assumes req: "lazy_requester w self = (Inl e, s, t)"
  shows "refresh w self = (Inl e, self, t)"
  using lazy_requester_failure(1) [OF req] req by (simp add: refresh_def)

lemma refresh_exchanges:
  assumes "refresh w self = (res, s, t)"
  shows "length (filter is_exchange t) \<le> 1"
proof (cases "lazy_requester w self")
  case (fields res2 s2 t2)
  from lazy_requester_exchanges [OF fields] have "length (filter is_exchange t2) \<le> 1" .
  with assms show ?thesis
    by (auto simp: refresh_def fields split: sum.splits prod.splits)
qed

lemma refresh_complete:
  assumes "refresh w self = (Inr u, s, t)"
  shows "p_completed s"
  using assms
  by (auto simp: refresh_def lazy_init_def split: sum.splits prod.splits)

lemma fetch_path:
  assumes init: "p_lazy_initialized self" "p_lazy_requester self = None" "p_completed self"
    and f: "declared_field self f"
    and cell: "map_of (cells self) f = Some c" "cell_value c = PNone"
    and req: "lazy_requester w self = (Inr r, self2, t2)"
    and url: "read_url self = Inr url"
    and fetch: "requestJsonAndCheck w r url = Inr (headers, data)"
  shows "getattribute w self f =
           (Inr (Val (case map_of data f of None \<Rightarrow> PNone | Some x \<Rightarrow> x)),
            lazy_init (object_clazz self) (Some r) (Some headers) data True,
            t2 @ [Request r url])"
proof -
  let ?new = "lazy_init (object_clazz self) (Some r) (Some headers) data True"
  have not_lazy: "\<not> startswith f ''_lazy''" using f by (simp add: declared_field_def)
  have fin: "f \<in> set (field_names (object_clazz self))" using f by (simp add: declared_field_def)
  have first: "object_getattribute w self f = (Inr (Val PNone), self, [])"
    using field_read [OF f] field_property_value [OF cell(1) init(3)] cell(2) by simp
  have r: "refresh w self = (Inr (), ?new, t2 @ [Request r url])"
    by (rule refresh_success [OF init(2) req url fetch])
  have "map_of (cells ?new) f = Some (case map_of data f of None \<Rightarrow> NotSet | Some v \<Rightarrow> Valued v)"
    using map_of_use_attributes [OF fin, of data] by (simp add: lazy_init_def)
  then have "field_property w ?new f =
      (Inr (Val (cell_value (case map_of data f of None \<Rightarrow> NotSet | Some v \<Rightarrow> Valued v))), ?new, [])"
    by (rule field_property_value) (simp add: lazy_init_def)
  then have "field_property w ?new f =
      (Inr (Val (case map_of data f of None \<Rightarrow> PNone | Some x \<Rightarrow> x)), ?new, [])"
    by (simp split: option.splits)
  then have second: "object_getattribute w ?new f =
      (Inr (Val (case map_of data f of None \<Rightarrow> PNone | Some x \<Rightarrow> x)), ?new, [])"
    using field_read [OF declared_field_lazy_init [OF f]] by simp
  show ?thesis
    unfolding getattribute_def
    by (simp add: first not_lazy init r second)
qed

lemma no_fetch_path:
  assumes f: "declared_field self f"
    and cell: "map_of (cells self) f = Some c" "p_completed self" "cell_value c \<noteq> PNone"
  shows "getattribute w self f = (Inr (Val (cell_value c)), self, [])"
  unfolding getattribute_def
  using field_read [OF f] field_property_value [OF cell(1) cell(2)] cell(3)
  by simp

lemma instance_facts:
  assumes "get_lazy_instance cls attributes = (cls', self)"
  shows "p_lazy_initialized self" "p_lazy_requester self = None" "p_completed self"
    "object_clazz self = cls'" "field_names cls' = field_names cls"
    "cells self = use_attributes cls' attributes"
  using assms by (auto simp: get_lazy_instance_def lazy_init_def Let_def split: if_splits)

text \<open>
  C3, as the code has it: on a resource built by \<open>get_lazy_instance\<close> without the field,
  the first read of the field, when the requester can be obtained and the request answers,
  makes exactly one request, to the resource's url, and returns what the payload holds for
  the field; when that value is not \<open>None\<close>, any later read of the field returns it with no
  call at all, whatever the world then is.
\<close>

theorem first_read_fetches_once:
  assumes inst: "get_lazy_instance cls attributes = (cls', self)"
    and f: "declared_field self f" "map_of attributes f = None"
    and req: "lazy_requester w self = (Inr r, self2, t2)"
    and url: "read_url self = Inr url"
    and fetch: "requestJsonAndCheck w r url = Inr (headers, data)"
  shows "\<exists>self' v. getattribute w self f = (Inr (Val v), self', t2 @ [Request r url])
           \<and> filter is_request (t2 @ [Request r url]) = [Request r url]
           \<and> v = (case map_of data f of None \<Rightarrow> PNone | Some x \<Rightarrow> x)
           \<and> (v \<noteq> PNone \<longrightarrow> (\<forall>w'. getattribute w' self' f = (Inr (Val v), self', [])))"
proof -
  note facts = instance_facts [OF inst]
  let ?new = "lazy_init (object_clazz self) (Some r) (Some headers) data True"
  let ?v = "case map_of data f of None \<Rightarrow> PNone | Some x \<Rightarrow> x"
  have fin: "f \<in> set (field_names cls')"
    using f(1) facts(4) by (simp add: declared_field_def)
  have cell: "map_of (cells self) f = Some NotSet"
    using map_of_use_attributes [OF fin, of attributes] f(2) facts(6) by simp
  have p: "getattribute w self f = (Inr (Val ?v), ?new, t2 @ [Request r url])"
    by (rule fetch_path [OF facts(1) facts(2) facts(3) f(1) cell _ req url fetch]) simp
  have newcell: "map_of (cells ?new) f =
      Some (case map_of data f of None \<Rightarrow> NotSet | Some v \<Rightarrow> Valued v)"
    using map_of_use_attributes [OF fin, of data] facts(4) by (simp add: lazy_init_def)
  have newval: "cell_value (case map_of data f of None \<Rightarrow> NotSet | Some v \<Rightarrow> Valued v) = ?v"
    by (simp split: option.splits)
  have once: "filter is_request (t2 @ [Request r url]) = [Request r url]"
    using lazy_requester_success(2) [OF req facts(2)] by simp
  have again: "?v \<noteq> PNone \<longrightarrow> (\<forall>w'. getattribute w' ?new f = (Inr (Val ?v), ?new, []))"
  proof (intro impI allI)
    fix w' assume "?v \<noteq> PNone"
    then have "cell_value (case map_of data f of None \<Rightarrow> NotSet | Some v \<Rightarrow> Valued v) \<noteq> PNone"
      using newval by simp
    from no_fetch_path [OF declared_field_lazy_init [OF f(1)] newcell _ this, of w']
    show "getattribute w' ?new f = (Inr (Val ?v), ?new, [])"
      using newval by (simp add: lazy_init_def)
  qed
  show ?thesis
  proof (intro exI conjI)
    show "getattribute w self f = (Inr (Val ?v), ?new, t2 @ [Request r url])" by (rule p)
    show "filter is_request (t2 @ [Request r url]) = [Request r url]" by (rule once)
    show "?v = (case map_of data f of None \<Rightarrow> PNone | Some x \<Rightarrow> x)" by (rule refl)
    show "?v \<noteq> PNone \<longrightarrow> (\<forall>w'. getattribute w' ?new f = (Inr (Val ?v), ?new, []))"
      by (rule again)
  qed
qed

text \<open>
  A failure during the fetch is returned to the caller of the field read. A failure while
  obtaining the requester leaves the resource as it was; a failure of the request leaves
  the fields as they were and the requester stored.
\<close>

lemma fetch_failure_reaches_caller:
  assumes init: "p_lazy_initialized self" "p_lazy_requester self = None" "p_completed self"
    and f: "declared_field self f"
    and cell: "map_of (cells self) f = Some c" "cell_value c = PNone"
  shows "(\<forall>e s t. lazy_requester w self = (Inl e, s, t) \<longrightarrow>
            getattribute w self f = (Inl e, self, t))
       \<and> (\<forall>r s t url e. lazy_requester w self = (Inr r, s, t) \<longrightarrow> read_url self = Inr url \<longrightarrow>
            requestJsonAndCheck w r url = Inl e \<longrightarrow>
            getattribute w self f =
              (Inl e, self\<lparr>p_lazy_requester := Some r\<rparr>, t @ [Request r url]))"
proof (intro conjI allI impI)
  have not_lazy: "\<not> startswith f ''_lazy''" using f by (simp add: declared_field_def)
  have first: "object_getattribute w self f = (Inr (Val PNone), self, [])"
    using field_read [OF f] field_property_value [OF cell(1) init(3)] cell(2) by simp
  {
    fix e s t assume req: "lazy_requester w self = (Inl e, s, t)"
    show "getattribute w self f = (Inl e, self, t)"
      unfolding getattribute_def
      by (simp add: first not_lazy init refresh_requester_failure [OF req])
  next
    fix r s t url e
    assume req: "lazy_requester w self = (Inr r, s, t)" and url: "read_url self = Inr url"
      and fail: "requestJsonAndCheck w r url = Inl e"
    show "getattribute w self f =
        (Inl e, self\<lparr>p_lazy_requester := Some r\<rparr>, t @ [Request r url])"
      unfolding getattribute_def
      by (simp add: first not_lazy init refresh_request_failure [OF init(2) req url fail])
  }
qed


text \<open>On a complete object the ordinary lookup of any name but the property calls nothing.\<close>

lemma complete_read:
  assumes "item \<noteq> ''lazy_requester''" "p_completed self"
    and "object_getattribute w self item = (res, s, t)"
  shows "t = []" and "s = self"
  using assms
  by (auto simp: object_getattribute_def field_property_def
           split: list.splits option.splits if_splits)

lemma property_read:
  "object_getattribute w self ''lazy_requester'' = (res, s, t) \<Longrightarrow>
     res \<noteq> Inr (Val PNone) \<and> length (filter is_exchange t) \<le> 1"
  by (auto simp: object_getattribute_def split: prod.splits sum.splits
           dest: lazy_requester_exchanges)

lemma getattribute_exchanges:
  assumes "p_completed self"
  shows "length (filter is_exchange (effects_of w self item)) \<le> 1"
proof (cases "item = ''lazy_requester''")
  case True
  obtain res s t where og: "object_getattribute w self ''lazy_requester'' = (res, s, t)"
    by (cases "object_getattribute w self ''lazy_requester''") auto
  from property_read [OF og] have "res \<noteq> Inr (Val PNone)" "length (filter is_exchange t) \<le> 1"
    by simp_all
  then show ?thesis
    unfolding effects_of_def getattribute_def True og
    by (cases res) auto
next
  case False
  obtain res s t where og0: "object_getattribute w self item = (res, s, t)"
    by (cases "object_getattribute w self item") auto
  from complete_read [OF False assms og0] have og: "object_getattribute w self item = (res, self, [])"
    using og0 by simp
  obtain res2 s2 t2 where rf: "refresh w self = (res2, s2, t2)"
    by (cases "refresh w self") auto
  have t2: "length (filter is_exchange t2) \<le> 1" by (rule refresh_exchanges [OF rf])
  show ?thesis
  proof (cases res2)
    case (Inl e)
    with t2 show ?thesis
      unfolding effects_of_def getattribute_def og
      by (auto simp: rf split: sum.splits)
  next
    case (Inr u)
    with rf have c2: "p_completed s2" using refresh_complete by blast
    obtain res3 s3 t3 where og3: "object_getattribute w s2 item = (res3, s3, t3)"
      by (cases "object_getattribute w s2 item") auto
    from complete_read(1) [OF False c2 og3] have "t3 = []" .
    with t2 Inr show ?thesis
      unfolding effects_of_def getattribute_def og
      by (auto simp: rf og3 split: sum.splits)
  qed
qed

text \<open>
  C2, as the code has it: a requester stored on the resource is returned without an
  exchange; an exchange that succeeds stores the requester on the resource, after which the
  property answers from the resource in any world; one attribute read of a complete
  resource, such as \<open>get_lazy_instance\<close> builds, performs one exchange at most. Nothing is
  kept outside the resource.
\<close>

theorem requester_cached_on_resource:
  "(p_lazy_requester self = Some r \<longrightarrow> lazy_requester w self = (Inr r, self, []))
   \<and> (lazy_requester w self = (Inr r, self', t) \<longrightarrow>
        p_lazy_requester self' = Some r \<and> length (filter is_exchange t) \<le> 1
        \<and> lazy_requester w' self' = (Inr r, self', []))
   \<and> (p_completed self \<longrightarrow> length (filter is_exchange (effects_of w self item)) \<le> 1)"
proof (intro conjI impI)
  show "lazy_requester w self = (Inr r, self, [])" if "p_lazy_requester self = Some r"
    using that by (rule lazy_requester_cached)
  show "length (filter is_exchange (effects_of w self item)) \<le> 1" if "p_completed self"
    using that by (rule getattribute_exchanges)
  {
    assume req: "lazy_requester w self = (Inr r, self', t)"
    show stored: "p_lazy_requester self' = Some r"
    proof (cases "p_lazy_requester self")
      case None
      from lazy_requester_success(1) [OF req None] show ?thesis by simp
    next
      case (Some r0)
      from lazy_requester_cached [OF Some, of w] req show ?thesis using Some by simp
    qed
    show "length (filter is_exchange t) \<le> 1" by (rule lazy_requester_exchanges [OF req])
    show "lazy_requester w' self' = (Inr r, self', [])" by (rule lazy_requester_cached [OF stored])
  }
qed

text \<open>
  C2 as stated fails: two resources built under the same installation each perform their
  own token exchange on their first fetch, and one resource whose payload leaves the field
  \<open>None\<close> performs the exchange again on the next read of the field.
\<close>

theorem exchange_per_resource:
  "length (filter is_exchange
        (effects_of world_full resource_absent ''attr1''
         @ effects_of world_full resource_other ''attr1'')) = 2
   \<and> length (filter is_exchange
        (effects_of world_partial resource_absent ''attr1''
         @ effects_of world_partial (after_read world_partial resource_absent ''attr1'') ''attr1''))
       = 2"
  by code_simp

text \<open>
  The read of \<open>_requester\<close> that the completion makes is the read \<open>__getattribute__\<close>
  performs for that name.
\<close>

lemma requester_read:
  "getattribute w self ''_requester'' =
     (case read_requester w self of
        (Inl e, s, t) \<Rightarrow> (Inl e, s, t)
      | (Inr x, s, t) \<Rightarrow> (Inr (case x of None \<Rightarrow> Val PNone | Some r \<Rightarrow> Req r), s, t))"
  by (auto simp: getattribute_def read_requester_def object_getattribute_def startswith_def
           split: option.splits sum.splits prod.splits)

section \<open>Grafting, configuration and event metadata\<close>

lemma distinct_count_one: "distinct xs \<Longrightarrow> x \<in> set xs \<Longrightarrow> count_list xs x = 1"
  by (induction xs) auto

text \<open>
  C7: \<open>get_lazy_instance\<close> applied to the class it has already grafted leaves the class as
  it is, with the lazy base among its bases exactly once.
\<close>

theorem get_lazy_instance_idempotent:
  assumes "distinct (bases cls)"
  shows "fst (get_lazy_instance (fst (get_lazy_instance cls a1)) a2) = fst (get_lazy_instance cls a1)
       \<and> count_list (bases (fst (get_lazy_instance (fst (get_lazy_instance cls a1)) a2))) lazy_base = 1"
proof -
  let ?c1 = "fst (get_lazy_instance cls a1)"
  have in1: "lazy_base \<in> set (bases ?c1)" by (simp add: get_lazy_instance_def Let_def)
  have d1: "distinct (bases ?c1)" using assms by (simp add: get_lazy_instance_def Let_def)
  have same: "fst (get_lazy_instance ?c1 a2) = ?c1"
    using in1 by (simp add: get_lazy_instance_def [of ?c1] Let_def)
  show ?thesis using same distinct_count_one [OF d1 in1] by simp
qed

theorem get_lazy_instance_idempotent_witness:
  "distinct (bases lazy_class)
   \<and> bases (fst (get_lazy_instance (fst (get_lazy_instance lazy_class [])) [])) =
       [''LazyCompletableGithubObject'', ''CompletableGithubObject'']
   \<and> count_list (bases (fst (get_lazy_instance (fst (get_lazy_instance lazy_class [])) [])))
        lazy_base = 1"
proof -
  have d: "distinct (bases lazy_class)" by (simp add: lazy_class_def)
  have b: "bases (fst (get_lazy_instance (fst (get_lazy_instance lazy_class [])) [])) =
       [''LazyCompletableGithubObject'', ''CompletableGithubObject'']" by code_simp
  from get_lazy_instance_idempotent [OF d, of "[]" "[]"] d b show ?thesis by simp
qed

lemma get_loop_append:
  "is_no_default dflt \<Longrightarrow>
   get_loop ca ba v (xs @ ys) dflt =
     (case get_loop ca ba v xs dflt of Inl e \<Rightarrow> Inl e | Inr v' \<Rightarrow> get_loop ca ba v' ys dflt)"
  by (induction xs arbitrary: v) (auto split: sum.splits)

text \<open>
  C9, as the code has it: when the dotted name leads, through attributes that exist, to a
  \<open>ConfigValue\<close> that has no attribute of the next name, in its dictionary or on its class,
  and no default was supplied, \<open>get\<close> raises \<open>ConfigError\<close> for that name; it returns
  nothing.
\<close>

theorem missing_config_raises:
  assumes "split_dot config_name = pre @ name # post"
    and "get_loop class_attrs builtin_attr self pre no_default = Inr (ConfigValue d)"
    and "map_of d name = None" and "name \<notin> set class_attrs"
  shows "get class_attrs builtin_attr self config_name no_default = Inl (ConfigError name)"
proof -
  have nd: "is_no_default no_default" by (simp add: no_default_def)
  have "py_getattr class_attrs builtin_attr (ConfigValue d) name = Inl (ConfigError name)"
    using assms(3,4) by (simp add: py_getattr_def)
  then have "get_loop class_attrs builtin_attr (ConfigValue d) (name # post) no_default
      = Inl (ConfigError name)"
    using nd by simp
  then show ?thesis
    unfolding get_def assms(1)
    by (simp add: get_loop_append [OF nd] assms(2))
qed

theorem missing_config_raises_witness:
  "split_dot ''server.host'' = [''server''] @ ''host'' # []
   \<and> get config_class_attrs no_builtin_attr sample_config ''server.host'' no_default
       = Inl (ConfigError ''host'')"
proof -
  have s: "split_dot ''server.host'' = [''server''] @ ''host'' # []" by code_simp
  have p: "get_loop config_class_attrs no_builtin_attr sample_config [''server''] no_default
     = Inr (ConfigValue [(''_value'', Basic PNone), (''port'', Basic (PInt 8080))])"
    by code_simp
  have m: "map_of [(''_value'', Basic PNone), (''port'', Basic (PInt 8080))] ''host'' = None"
    by code_simp
  have n: "''host'' \<notin> set config_class_attrs" by code_simp
  from missing_config_raises [OF s p m n] s show ?thesis by simp
qed

text \<open>
  C9 as stated fails: \<open>_value\<close>, which no configuration defines, is read as \<open>None\<close> with
  no error, and a name asked of a plain value is refused with the \<open>AttributeError\<close> of
  that value's type, not with \<open>ConfigError\<close>.
\<close>

theorem config_access_without_config_error:
  "get config_class_attrs no_builtin_attr sample_config ''_value'' no_default = Inr (Basic PNone)
   \<and> get config_class_attrs no_builtin_attr sample_config ''server.port'' no_default
       = Inr (Basic (PInt 8080))
   \<and> get config_class_attrs no_builtin_attr sample_config ''server.port.host'' no_default
       = Inl (AttributeError ''host'')"
  by code_simp

text \<open>
  C8, as the code has it: the metadata live on the class. Whatever the class held before,
  a successful construction leaves on it the delivery, event name, hook id, installation
  target, installation id and raw headers and body of the event just built, and that is
  what any earlier event reads from then on.
\<close>

theorem event_init_metadata_shared:
  assumes "event_init m gh_arg r headers s rp kwargs = (Inr e, m')"
  shows "snd (event_init m0 gh_arg r headers s rp kwargs) = m'
       \<and> dict_item headers ''X-Github-Delivery'' = Inr (seen_delivery m' first)
       \<and> dict_item headers ''X-Github-Event'' = Inr (github_event m')
       \<and> int_header headers ''X-Github-Hook-Id'' = Inr (hook_id m')
       \<and> int_header headers ''X-Github-Hook-Installation-Target-Id''
           = Inr (hook_installation_target_id m')
       \<and> dict_item headers ''X-Github-Hook-Installation-Target-Type''
           = Inr (hook_installation_target_type m')
       \<and> installation_id_value kwargs = Inr (seen_installation_id m' first)
       \<and> (\<forall>installation n. map_of kwargs ''installation'' = Some (PDict installation) \<longrightarrow>
             map_of installation ''id'' = Some (PInt n) \<longrightarrow>
             seen_installation_id m' first = PInt n)
       \<and> raw_headers m' = Some headers \<and> raw_body m' = Some kwargs"
proof -
  have stored: "snd (event_init m0 gh_arg r headers s rp kwargs) = m'
       \<and> dict_item headers ''X-Github-Delivery'' = Inr (seen_delivery m' first)
       \<and> dict_item headers ''X-Github-Event'' = Inr (github_event m')
       \<and> int_header headers ''X-Github-Hook-Id'' = Inr (hook_id m')
       \<and> int_header headers ''X-Github-Hook-Installation-Target-Id''
           = Inr (hook_installation_target_id m')
       \<and> dict_item headers ''X-Github-Hook-Installation-Target-Type''
           = Inr (hook_installation_target_type m')
       \<and> installation_id_value kwargs = Inr (seen_installation_id m' first)
       \<and> raw_headers m' = Some headers \<and> raw_body m' = Some kwargs"
    using assms
    unfolding event_init_def seen_delivery_def seen_installation_id_def Let_def
    by (auto split: sum.splits if_splits)
  have "seen_installation_id m' first = PInt n"
    if "map_of kwargs ''installation'' = Some (PDict installation)"
      and "map_of installation ''id'' = Some (PInt n)" for installation n
  proof -
    from that have "installation_id_value kwargs = Inr (PInt n)"
      by (simp add: installation_id_value_def installation_id_of_def)
    with stored show ?thesis by simp
  qed
  with stored show ?thesis by blast
qed

section \<open>The theorems at concrete inputs\<close>

lemma first_construction_value: "first_construction = (Inr first_event, meta_after_first)"
  by code_simp

lemma second_construction_value: "second_construction = (Inr first_event, meta_after_second)"
proof -
  have "event_init meta_after_first ''gh'' None push_headers None None push_body
      = (Inr first_event, meta_after_second)"
    by code_simp
  then show ?thesis by (simp add: second_construction_def first_construction_value)
qed

text \<open>
  C8 as stated fails: after the second event is built, the delivery id and the installation
  id read through the first event are those of the second.
\<close>

theorem first_event_metadata_overwritten:
  "fst first_construction = Inr first_event
   \<and> seen_delivery (snd first_construction) first_event = PStr ''d1''
   \<and> seen_installation_id (snd first_construction) first_event = PInt 55
   \<and> seen_delivery (snd second_construction) first_event = PStr ''d2''
   \<and> seen_installation_id (snd second_construction) first_event = PInt 56"
  by (simp add: first_construction_value second_construction_value seen_delivery_def
        seen_installation_id_def meta_after_first_def meta_after_second_def)

theorem event_init_metadata_shared_witness:
  "event_init meta_after_first ''gh'' None push_headers None None push_body
      = (Inr first_event, meta_after_second)
   \<and> seen_delivery meta_after_second first_event = PStr ''d2''
   \<and> github_event meta_after_second = PStr ''push''
   \<and> hook_id meta_after_second = PInt 7
   \<and> seen_installation_id meta_after_second first_event = PInt 56
   \<and> raw_headers meta_after_second = Some push_headers
   \<and> raw_body meta_after_second = Some push_body"
proof -
  have c: "event_init meta_after_first ''gh'' None push_headers None None push_body
      = (Inr first_event, meta_after_second)"
    by code_simp
  have d: "dict_item push_headers ''X-Github-Delivery'' = Inr (PStr ''d2'')"
    "dict_item push_headers ''X-Github-Event'' = Inr (PStr ''push'')"
    "int_header push_headers ''X-Github-Hook-Id'' = Inr (PInt 7)"
    by code_simp+
  have i: "map_of push_body ''installation'' = Some (PDict [(''id'', PInt 56)])"
    "map_of [(''id'', PInt 56)] ''id'' = Some (PInt 56)"
    by code_simp+
  from event_init_metadata_shared [OF c, of initial_meta first_event] c d i
  show ?thesis by simp
qed

text \<open>
  C3 as stated fails: when the payload does not give the field a value, the second read of
  the field sends a request again.
\<close>

theorem second_read_fetches_again:
  "fst (getattribute world_partial resource_absent ''attr1'') = Inr (Val PNone)
   \<and> filter is_request (effects_of world_partial resource_absent ''attr1'')
       = [Request (Requester ''token'') resource_url]
   \<and> filter is_request
        (effects_of world_partial (after_read world_partial resource_absent ''attr1'') ''attr1'')
       = [Request (Requester ''token'') resource_url]"
  by code_simp

text \<open>
  C4: what the code does where the claim promises a retry. The first read of the unset
  field meets a request that fails, and the error reaches the caller with the fields left
  as they were; the next read of the same field, in a world where the request would
  succeed, returns \<open>None\<close> and calls nothing.
\<close>

theorem no_retry_after_failed_request:
  "fst (getattribute world_down resource_absent ''attr1'') = Inl (GithubException ''404'')
   \<and> cells (after_read world_down resource_absent ''attr1'') = cells resource_absent
   \<and> map_of (cells resource_absent) ''attr1'' = Some NotSet
   \<and> fst (getattribute world_full (after_read world_down resource_absent ''attr1'') ''attr1'')
       = Inr (Val PNone)
   \<and> effects_of world_full (after_read world_down resource_absent ''attr1'') ''attr1'' = []"
  by code_simp


lemma absent_facts:
  "p_lazy_initialized resource_absent" "p_lazy_requester resource_absent = None"
  "p_completed resource_absent" "declared_field resource_absent ''attr1''"
  "read_url resource_absent = Inr resource_url"
  "map_of (cells resource_absent) ''attr1'' = Some NotSet"
  "lazy_requester world_full resource_absent =
     (Inr (Requester ''token''), resource_absent\<lparr>p_lazy_requester := Some (Requester ''token'')\<rparr>,
      [TokenExchange (PInt 123) ''private-key'' (PInt 55)])"
  by code_simp+

theorem first_read_fetches_once_witness:
  "getattribute world_full resource_absent ''attr1'' =
     (Inr (Val (PStr ''value1'')), after_read world_full resource_absent ''attr1'',
      [TokenExchange (PInt 123) ''private-key'' (PInt 55), Request (Requester ''token'') resource_url])
   \<and> getattribute world_down (after_read world_full resource_absent ''attr1'') ''attr1'' =
     (Inr (Val (PStr ''value1'')), after_read world_full resource_absent ''attr1'', [])"
proof -
  have inst: "get_lazy_instance lazy_class [(''url'', resource_url)] =
      (fst (get_lazy_instance lazy_class [(''url'', resource_url)]), resource_absent)"
    by (simp add: resource_absent_def)
  have absent: "map_of [(''url'', resource_url)] ''attr1'' = None" by code_simp
  have fetch: "requestJsonAndCheck world_full (Requester ''token'') resource_url =
      Inr ([], [(''attr1'', PStr ''value1''), (''url'', resource_url)])"
    by (simp add: world_full_def)
  have v: "(case map_of [(''attr1'', PStr ''value1''), (''url'', resource_url)] ''attr1'' of
             None \<Rightarrow> PNone | Some x \<Rightarrow> x) = PStr ''value1''" by code_simp
  from first_read_fetches_once [OF inst absent_facts(4) absent absent_facts(7) absent_facts(5) fetch]
  obtain self' where
    1: "getattribute world_full resource_absent ''attr1'' =
          (Inr (Val (PStr ''value1'')), self',
           [TokenExchange (PInt 123) ''private-key'' (PInt 55)] @ [Request (Requester ''token'') resource_url])"
    and 2: "\<forall>w'. getattribute w' self' ''attr1'' = (Inr (Val (PStr ''value1'')), self', [])"
    unfolding v by auto
  from 1 have "self' = after_read world_full resource_absent ''attr1''"
    by (simp add: after_read_def)
  with 1 2 show ?thesis by simp
qed



theorem requester_cached_on_resource_witness:
  "lazy_requester world_full resource_absent =
     (Inr (Requester ''token''), resource_absent\<lparr>p_lazy_requester := Some (Requester ''token'')\<rparr>,
      [TokenExchange (PInt 123) ''private-key'' (PInt 55)])
   \<and> lazy_requester world_down (resource_absent\<lparr>p_lazy_requester := Some (Requester ''token'')\<rparr>) =
     (Inr (Requester ''token''), resource_absent\<lparr>p_lazy_requester := Some (Requester ''token'')\<rparr>, [])
   \<and> p_completed resource_absent
   \<and> length (filter is_exchange (effects_of world_full resource_absent ''attr1'')) \<le> 1"
proof -
  from requester_cached_on_resource [where w = world_full and self = resource_absent
      and r = "Requester ''token''"
      and self' = "resource_absent\<lparr>p_lazy_requester := Some (Requester ''token'')\<rparr>"
      and t = "[TokenExchange (PInt 123) ''private-key'' (PInt 55)]" and w' = world_down
      and item = "''attr1''"]
    absent_facts(7) absent_facts(3)
  show ?thesis by blast
qed

text \<open>
  Why the bound on one read is for complete resources: on an incomplete resource without a
  requester, PyGithub's completion reads \<open>_requester\<close>, which fetches, and the value, still
  \<open>None\<close>, sends the read into the fetch a second time.
\<close>

lemma incomplete_read_exchanges_twice:
  "\<not> p_completed resource_incomplete
   \<and> fst (getattribute world_partial resource_incomplete ''attr1'') = Inr (Val PNone)
   \<and> length (filter is_exchange (effects_of world_partial resource_incomplete ''attr1'')) = 2"
  by code_simp

end
